theory Spec2Isabelle
  imports Complex_Main
begin

section \<open>Constants (presets.js)\<close>

text \<open>
  JavaScript numbers are IEEE doubles. The needle simulator is modelled over the reals:
  rounding is idealised away and every number that reaches it is finite (timestamps and
  target angles are finite arguments throughout). \<open>Math.PI\<close> is \<^term>\<open>pi\<close>.
\<close>

definition FIXED_TIMESTEP :: real where
  "FIXED_TIMESTEP = 1 / 120"

definition MAX_FRAME_TIME :: real where
  "MAX_FRAME_TIME = 1 / 10"

section \<open>The needle simulator (NeedlePhysics.js)\<close>

text \<open>
  The four tuning fields the constructor reads from the configuration object; \<open>None\<close> is
  an absent field (\<open>undefined\<close>).
\<close>

record physics_config =
  cfg_stiffness :: "real option"
  cfg_damping :: "real option"
  cfg_maxVelocity :: "real option"
  cfg_maxAccel :: "real option"

text \<open>\<open>x || d\<close> on an optional number: \<open>undefined\<close> and \<open>0\<close> are falsy.\<close>

definition or_default :: "real option \<Rightarrow> real \<Rightarrow> real" where
  "or_default x d = (case x of None \<Rightarrow> d | Some v \<Rightarrow> if v = 0 then d else v)"

record NeedlePhysics =
  angle :: real
  velocity :: real
  targetAngle :: real
  stiffness :: real
  damping :: real
  maxVelocity :: real
  maxAccel :: real
  accumulator :: real
  lastTime :: "real option"
  vibrationEnabled :: bool
  vibrationAmount :: real
  reducedMotion :: bool

text \<open>
  The constructor. Its second argument is what
  \<open>window.matchMedia('(prefers-reduced-motion: reduce)').matches\<close> answers.
\<close>

definition new_NeedlePhysics :: "physics_config \<Rightarrow> bool \<Rightarrow> NeedlePhysics" where
  "new_NeedlePhysics config prefersReduced =
     \<lparr> angle = 0, velocity = 0, targetAngle = 0,
       stiffness = or_default (cfg_stiffness config) 120,
       damping = or_default (cfg_damping config) 18,
       maxVelocity = or_default (cfg_maxVelocity config) 20,
       maxAccel = or_default (cfg_maxAccel config) 100,
       accumulator = 0, lastTime = None,
       vibrationEnabled = False, vibrationAmount = 2 / 1000,
       reducedMotion = prefersReduced \<rparr>"

definition setTarget :: "real \<Rightarrow> bool \<Rightarrow> NeedlePhysics \<Rightarrow> NeedlePhysics" where
  "setTarget a immediate p =
     (let p1 = p\<lparr>targetAngle := a\<rparr>
      in if immediate \<or> reducedMotion p1 then p1\<lparr>angle := a, velocity := 0\<rparr> else p1)"

definition step :: "real \<Rightarrow> NeedlePhysics \<Rightarrow> NeedlePhysics" where
  "step dt p =
     (let displacement = targetAngle p - angle p;
          acceleration0 = stiffness p * displacement - damping p * velocity p;
          acceleration = max (- maxAccel p) (min (maxAccel p) acceleration0);
          velocity1 = velocity p + acceleration * dt;
          velocity2 = max (- maxVelocity p) (min (maxVelocity p) velocity1)
      in p\<lparr>velocity := velocity2, angle := angle p + velocity2 * dt\<rparr>)"

text \<open>One turn of the body of the \<open>while\<close> loop of \<open>update\<close>.\<close>

definition loop_body :: "NeedlePhysics \<Rightarrow> NeedlePhysics" where
  "loop_body p =
     (let p1 = step FIXED_TIMESTEP p
      in p1\<lparr>accumulator := accumulator p1 - FIXED_TIMESTEP\<rparr>)"

text \<open>\<open>while (this.accumulator >= FIXED_TIMESTEP) { ... }\<close>\<close>

function fixed_steps :: "NeedlePhysics \<Rightarrow> NeedlePhysics" where
  "fixed_steps p =
     (if accumulator p \<ge> FIXED_TIMESTEP then fixed_steps (loop_body p) else p)"
  by pat_completeness auto
termination
proof (relation "measure (\<lambda>p. nat \<lfloor>accumulator p * 120\<rfloor>)")
  show "wf (measure (\<lambda>p. nat \<lfloor>accumulator p * 120\<rfloor>))"
    by simp
next
  fix p :: NeedlePhysics
  assume ge: "FIXED_TIMESTEP \<le> accumulator p"
  have "accumulator (loop_body p) * 120 = accumulator p * 120 - 1"
    by (simp add: loop_body_def step_def Let_def FIXED_TIMESTEP_def algebra_simps)
  then have fl: "\<lfloor>accumulator (loop_body p) * 120\<rfloor> = \<lfloor>accumulator p * 120\<rfloor> - 1"
    by simp
  from ge have "1 \<le> accumulator p * 120"
    by (simp add: FIXED_TIMESTEP_def)
  then have "1 \<le> \<lfloor>accumulator p * 120\<rfloor>"
    by linarith
  with fl show "(loop_body p, p) \<in> measure (\<lambda>p. nat \<lfloor>accumulator p * 120\<rfloor>)"
    by simp
qed

text \<open>
  \<open>update(currentTime)\<close> returns the angle to draw and leaves the simulator changed. The
  second argument is the value \<open>Math.random()\<close> returns in this call. The test
  \<open>!isFinite(frameTime)\<close> never fires on finite timestamps and is left out.
\<close>

definition update :: "real \<Rightarrow> real \<Rightarrow> NeedlePhysics \<Rightarrow> real \<times> NeedlePhysics" where
  "update currentTime rnd p =
     (case lastTime p of
        None \<Rightarrow> (angle p, p\<lparr>lastTime := Some currentTime\<rparr>)
      | Some lt \<Rightarrow>
          (let frameTime0 = (currentTime - lt) / 1000;
               p1 = p\<lparr>lastTime := Some currentTime\<rparr>;
               frameTime1 = (if frameTime0 < 0 then 0 else frameTime0);
               frameTime = (if frameTime1 > MAX_FRAME_TIME then MAX_FRAME_TIME else frameTime1)
           in if reducedMotion p1
              then (targetAngle p1, p1\<lparr>angle := targetAngle p1, velocity := 0\<rparr>)
              else
                (let p2 = fixed_steps (p1\<lparr>accumulator := accumulator p1 + frameTime\<rparr>);
                     outputAngle =
                       (if vibrationEnabled p2 \<and> \<bar>targetAngle p2\<bar> > 1 / 10
                        then angle p2 + (rnd - 1 / 2) * vibrationAmount p2 * (targetAngle p2 / pi)
                        else angle p2)
                 in (outputAngle, p2))))"

text \<open>
  \<open>isSettled(threshold)\<close>; its guard against a non-finite difference or velocity never
  fires on reals.
\<close>

definition isSettled :: "real \<Rightarrow> NeedlePhysics \<Rightarrow> bool" where
  "isSettled threshold p =
     (let angleDiff = \<bar>angle p - targetAngle p\<bar>; velMag = \<bar>velocity p\<bar>
      in angleDiff < threshold \<and> velMag < threshold)"

text \<open>A call made on the simulator from outside, and a run of such calls.\<close>

datatype call = SetTarget real bool | Update real real

fun do_call :: "call \<Rightarrow> NeedlePhysics \<Rightarrow> NeedlePhysics" where
  "do_call (SetTarget a immediate) p = setTarget a immediate p"
| "do_call (Update currentTime rnd) p = snd (update currentTime rnd p)"

definition run :: "call list \<Rightarrow> NeedlePhysics \<Rightarrow> NeedlePhysics" where
  "run calls p = fold do_call calls p"

text \<open>Several \<open>update\<close> calls in a row, each with its timestamp and its random draw.\<close>

fun updates :: "(real \<times> real) list \<Rightarrow> NeedlePhysics \<Rightarrow> real list \<times> NeedlePhysics" where
  "updates [] p = ([], p)"
| "updates ((currentTime, rnd) # cs) p =
     (let (a, p1) = update currentTime rnd p;
          (as, p2) = updates cs p1
      in (a # as, p2))"

subsection \<open>The simulator as the specification words it\<close>

text \<open>
  The specification's account of \<open>update\<close> and \<open>step\<close>, written from its sentences and
  compared with the code below: the elapsed time in seconds, clamped below by 0 and capped
  at 0.1; a carry buffer; as many steps of 1/120 s as fit into the buffer; each step
  clamps the acceleration to \<open>\<plusminus>maxAccel\<close>, updates the velocity, clamps it to
  \<open>\<plusminus>maxVelocity\<close> and then moves the angle by the new velocity.
\<close>

text \<open>Clamping \<open>x\<close> to \<open>\<plusminus>m\<close>.\<close>

definition clamp_sym :: "real \<Rightarrow> real \<Rightarrow> real" where
  "clamp_sym m x = max (- m) (min m x)"

definition spec_step :: "NeedlePhysics \<Rightarrow> NeedlePhysics" where
  "spec_step p =
     (let acceleration = clamp_sym (maxAccel p)
            (stiffness p * (targetAngle p - angle p) - damping p * velocity p);
          v = clamp_sym (maxVelocity p) (velocity p + acceleration * (1 / 120))
      in p\<lparr>velocity := v, angle := angle p + v * (1 / 120)\<rparr>)"

definition spec_elapsed :: "real \<Rightarrow> real \<Rightarrow> real" where
  "spec_elapsed lt t = min (1 / 10) (max 0 ((t - lt) / 1000))"



definition spec_advance :: "real \<Rightarrow> real \<Rightarrow> NeedlePhysics \<Rightarrow> NeedlePhysics" where
  "spec_advance lt t p =
     (let buffer = accumulator p + spec_elapsed lt t;
          n = nat \<lfloor>buffer * 120\<rfloor>
      in ((spec_step ^^ n) p)\<lparr>accumulator := buffer - real n / 120, lastTime := Some t\<rparr>)"

subsection \<open>Auxiliary notions for the proofs\<close>

text \<open>What \<open>update\<close> does to the simulator, without the angle it returns.\<close>

definition advance_state :: "real \<Rightarrow> NeedlePhysics \<Rightarrow> NeedlePhysics" where
  "advance_state currentTime p =
     (case lastTime p of
        None \<Rightarrow> p\<lparr>lastTime := Some currentTime\<rparr>
      | Some lt \<Rightarrow>
          if reducedMotion p
          then p\<lparr>lastTime := Some currentTime, angle := targetAngle p, velocity := 0\<rparr>
          else fixed_steps (p\<lparr>lastTime := Some currentTime,
                 accumulator := accumulator p + spec_elapsed lt currentTime\<rparr>))"

text \<open>The number of turns the loop of \<open>update\<close> takes.\<close>

definition steps_due :: "NeedlePhysics \<Rightarrow> nat" where
  "steps_due p = nat \<lfloor>accumulator p * 120\<rfloor>"


text \<open>A needle at rest on its target \<open>x\<close>, with non-negative limits.\<close>

definition resting :: "real \<Rightarrow> NeedlePhysics \<Rightarrow> bool" where
  "resting x p \<longleftrightarrow>
     angle p = x \<and> velocity p = 0 \<and> targetAngle p = x \<and> 0 \<le> maxAccel p \<and> 0 \<le> maxVelocity p"


subsection \<open>Concrete simulators and call sequences\<close>

definition default_physics_config :: physics_config where
  "default_physics_config =
     \<lparr>cfg_stiffness = None, cfg_damping = None, cfg_maxVelocity = None, cfg_maxAccel = None\<rparr>"

text \<open>A default simulator after its first \<open>update\<close>, at time 0.\<close>

definition started_needle :: NeedlePhysics where
  "started_needle = run [Update 0 0] (new_NeedlePhysics default_physics_config False)"


text \<open>A default simulator on which \<open>gauge.vibration = true\<close> has been set.\<close>

definition vibrating_needle :: NeedlePhysics where
  "vibrating_needle =
     (new_NeedlePhysics default_physics_config False)\<lparr>vibrationEnabled := True\<rparr>"


text \<open>A simulator built from \<open>{maxAccel: -1}\<close>, after its first \<open>update\<close>.\<close>

definition negative_accel_needle :: NeedlePhysics where
  "negative_accel_needle = run [Update 0 0]
     (new_NeedlePhysics \<lparr>cfg_stiffness = None, cfg_damping = None,
        cfg_maxVelocity = None, cfg_maxAccel = Some (- 1)\<rparr> False)"



section \<open>JavaScript numbers\<close>

text \<open>
  Where a claim depends on what happens to non-finite numbers (the angle mapping, the
  renderer), a JavaScript number is a finite real, one of the two infinities or \<open>NaN\<close>.
  Rounding, overflow to infinity and the sign of zero are idealised away: arithmetic on
  finite numbers is exact, and a zero divisor counts as \<open>+0\<close>.
\<close>

datatype jsnum = Fin real | PosInf | NegInf | NaN

fun js_isFinite :: "jsnum \<Rightarrow> bool" where
  "js_isFinite (Fin x) = True"
| "js_isFinite x = False"

fun js_neg :: "jsnum \<Rightarrow> jsnum" where
  "js_neg (Fin x) = Fin (- x)"
| "js_neg PosInf = NegInf"
| "js_neg NegInf = PosInf"
| "js_neg NaN = NaN"

fun js_add :: "jsnum \<Rightarrow> jsnum \<Rightarrow> jsnum" where
  "js_add NaN y = NaN"
| "js_add x NaN = NaN"
| "js_add (Fin x) (Fin y) = Fin (x + y)"
| "js_add PosInf NegInf = NaN"
| "js_add NegInf PosInf = NaN"
| "js_add PosInf y = PosInf"
| "js_add NegInf y = NegInf"
| "js_add x PosInf = PosInf"
| "js_add x NegInf = NegInf"

definition js_sub :: "jsnum \<Rightarrow> jsnum \<Rightarrow> jsnum" where
  "js_sub x y = js_add x (js_neg y)"

fun js_mul :: "jsnum \<Rightarrow> jsnum \<Rightarrow> jsnum" where
  "js_mul NaN y = NaN"
| "js_mul x NaN = NaN"
| "js_mul (Fin x) (Fin y) = Fin (x * y)"
| "js_mul (Fin x) y = (if x = 0 then NaN else if (0 < x) = (y = PosInf) then PosInf else NegInf)"
| "js_mul x (Fin y) = (if y = 0 then NaN else if (0 < y) = (x = PosInf) then PosInf else NegInf)"
| "js_mul x y = (if x = y then PosInf else NegInf)"

fun js_div :: "jsnum \<Rightarrow> jsnum \<Rightarrow> jsnum" where
  "js_div NaN y = NaN"
| "js_div x NaN = NaN"
| "js_div (Fin x) (Fin y) =
     (if y = 0 then (if x = 0 then NaN else if 0 < x then PosInf else NegInf) else Fin (x / y))"
| "js_div (Fin x) y = Fin 0"
| "js_div x (Fin y) = (if (0 \<le> y) = (x = PosInf) then PosInf else NegInf)"
| "js_div x y = NaN"

text \<open>\<open>x <= y\<close>; every comparison with \<open>NaN\<close> is false.\<close>

fun js_le :: "jsnum \<Rightarrow> jsnum \<Rightarrow> bool" where
  "js_le NaN y = False"
| "js_le x NaN = False"
| "js_le (Fin x) (Fin y) = (x \<le> y)"
| "js_le NegInf y = True"
| "js_le x PosInf = True"
| "js_le x y = False"

definition js_ge :: "jsnum \<Rightarrow> jsnum \<Rightarrow> bool" where
  "js_ge x y = js_le y x"

text \<open>\<open>x > y\<close>\<close>

definition js_gt :: "jsnum \<Rightarrow> jsnum \<Rightarrow> bool" where
  "js_gt x y = (js_le y x \<and> x \<noteq> y)"

text \<open>\<open>x === y\<close> on numbers: \<open>NaN\<close> equals nothing.\<close>

definition js_strict_eq :: "jsnum \<Rightarrow> jsnum \<Rightarrow> bool" where
  "js_strict_eq x y = (x \<noteq> NaN \<and> y \<noteq> NaN \<and> x = y)"

definition Math_max :: "jsnum \<Rightarrow> jsnum \<Rightarrow> jsnum" where
  "Math_max x y = (if x = NaN \<or> y = NaN then NaN else if js_le x y then y else x)"

definition Math_min :: "jsnum \<Rightarrow> jsnum \<Rightarrow> jsnum" where
  "Math_min x y = (if x = NaN \<or> y = NaN then NaN else if js_le x y then x else y)"

text \<open>\<open>Math.round\<close>: to the nearest integer, halves upwards.\<close>

fun Math_round :: "jsnum \<Rightarrow> jsnum" where
  "Math_round (Fin x) = Fin (of_int \<lfloor>x + 1 / 2\<rfloor>)"
| "Math_round x = x"

text \<open>
  An optional numeric field of an object: \<open>None\<close> is \<open>undefined\<close>. It is truthy unless it
  is \<open>undefined\<close>, \<open>0\<close> or \<open>NaN\<close>; \<open>a || b\<close> is \<open>a\<close> when \<open>a\<close> is truthy and \<open>b\<close> otherwise.
\<close>

fun truthy :: "jsnum option \<Rightarrow> bool" where
  "truthy None = False"
| "truthy (Some NaN) = False"
| "truthy (Some (Fin x)) = (x \<noteq> 0)"
| "truthy (Some x) = True"

definition js_or :: "jsnum option \<Rightarrow> jsnum option \<Rightarrow> jsnum option" where
  "js_or a b = (if truthy a then a else b)"

section \<open>The configuration record\<close>

text \<open>
  The fields of the resolved configuration that the modelled functions read. \<open>config.min\<close>
  and \<open>config.max\<close> are \<open>cfg_min\<close> and \<open>cfg_max\<close>.
\<close>

record zone =
  zone_start :: jsnum
  zone_end :: jsnum
  zone_color :: string
  zone_offset :: "jsnum option"
  zone_width :: "jsnum option"

record config =
  cfg_min :: jsnum
  cfg_max :: jsnum
  cfg_startAngle :: jsnum
  cfg_endAngle :: jsnum
  cfg_majorTicks :: nat
  cfg_zones :: "zone list option"
  cfg_redlineStart :: "jsnum option"
  cfg_dangerStart :: "jsnum option"

section \<open>The value-to-angle mapping\<close>

text \<open>\<open>Gauge._valueToAngle\<close> (Gauge.js); \<open>None\<close> is a \<open>_config\<close> that is not set.\<close>

definition Gauge_valueToAngle :: "config option \<Rightarrow> jsnum \<Rightarrow> jsnum" where
  "Gauge_valueToAngle cfg value0 =
     (case cfg of
        None \<Rightarrow> Fin 0
      | Some c \<Rightarrow>
          (let value = (if \<not> js_isFinite value0 then cfg_min c else value0);
               range = js_sub (cfg_max c) (cfg_min c)
           in if js_strict_eq range (Fin 0) then Fin 0
              else
                (let normalized = js_div (js_sub value (cfg_min c)) range;
                     clamped = Math_max (Fin 0) (Math_min (Fin 1) normalized);
                     startAngle = js_div (js_mul (js_sub (cfg_startAngle c) (Fin 90)) (Fin pi)) (Fin 180);
                     endAngle = js_div (js_mul (js_sub (cfg_endAngle c) (Fin 90)) (Fin pi)) (Fin 180);
                     result = js_add startAngle (js_mul clamped (js_sub endAngle startAngle))
                 in if js_isFinite result then result else Fin 0)))"

text \<open>\<open>GaugeRenderer.valueToAngle\<close>: the same mapping without the guards.\<close>

definition valueToAngle :: "config \<Rightarrow> jsnum \<Rightarrow> jsnum" where
  "valueToAngle c value =
     (let normalized = js_div (js_sub value (cfg_min c)) (js_sub (cfg_max c) (cfg_min c));
          clamped = Math_max (Fin 0) (Math_min (Fin 1) normalized);
          startAngle = js_div (js_mul (js_sub (cfg_startAngle c) (Fin 90)) (Fin pi)) (Fin 180);
          endAngle = js_div (js_mul (js_sub (cfg_endAngle c) (Fin 90)) (Fin pi)) (Fin 180)
      in js_add startAngle (js_mul clamped (js_sub endAngle startAngle)))"

subsection \<open>The mapping as the specification writes it\<close>

definition toRadians :: "real \<Rightarrow> real" where
  "toRadians d = d * pi / 180"

definition clamp01 :: "real \<Rightarrow> real" where
  "clamp01 x = max 0 (min 1 x)"

definition spec_angle :: "real \<Rightarrow> real \<Rightarrow> real \<Rightarrow> real \<Rightarrow> real \<Rightarrow> real" where
  "spec_angle mn mx startAngle endAngle v =
     toRadians (startAngle - 90)
       + clamp01 ((v - mn) / (mx - mn)) * (toRadians (endAngle - 90) - toRadians (startAngle - 90))"

text \<open>A configuration whose four range and sweep fields are finite numbers.\<close>

definition finite_config :: "config \<Rightarrow> real \<Rightarrow> real \<Rightarrow> real \<Rightarrow> real \<Rightarrow> bool" where
  "finite_config c mn mx s e \<longleftrightarrow>
     cfg_min c = Fin mn \<and> cfg_max c = Fin mx \<and> cfg_startAngle c = Fin s \<and> cfg_endAngle c = Fin e"

text \<open>
  A magnitude of at most \<open>1e300\<close>: sums and differences of such numbers, and their
  conversion to radians, stay far below the largest double (about \<open>1.8e308\<close>), so that no
  operation of the mapping overflows.
\<close>

definition moderate :: "real \<Rightarrow> bool" where
  "moderate x \<longleftrightarrow> \<bar>x\<bar> \<le> 10 ^ 300"

subsection \<open>Concrete configurations\<close>

text \<open>The defaults of presets.js: range 0 to 100, sweep from -225 to 45 degrees.\<close>

definition defaults :: config where
  "defaults = \<lparr> cfg_min = Fin 0, cfg_max = Fin 100, cfg_startAngle = Fin (- 225),
       cfg_endAngle = Fin 45, cfg_majorTicks = 5, cfg_zones = Some [],
       cfg_redlineStart = None, cfg_dangerStart = None \<rparr>"

text \<open>\<open>{min: 50, max: 50}\<close> over the defaults: a zero range.\<close>

definition zero_range_config :: config where
  "zero_range_config = defaults\<lparr>cfg_min := Fin 50, cfg_max := Fin 50\<rparr>"


section \<open>The renderer (GaugeRenderer.js)\<close>

subsection \<open>Warning zones\<close>

text \<open>
  The first lines of \<open>drawZones\<close>: the zone list that is drawn. A missing or empty
  \<open>config.zones\<close> falls back to one zone made from \<open>redlineStart || dangerStart\<close>.
\<close>

definition resolve_zones :: "config \<Rightarrow> zone list option" where
  "resolve_zones c =
     (let zones = cfg_zones c
      in if (zones = None \<or> zones = Some []) \<and> truthy (js_or (cfg_redlineStart c) (cfg_dangerStart c))
         then (case js_or (cfg_redlineStart c) (cfg_dangerStart c) of
                 None \<Rightarrow> zones
               | Some start \<Rightarrow>
                   Some [\<lparr> zone_start = start, zone_end = cfg_max c,
                           zone_color = ''rgba(204, 32, 32, 0.15)'',
                           zone_offset = None, zone_width = None \<rparr>])
         else zones)"

text \<open>
  One filled band per zone: the two arcs \<open>ctx.arc(center, center, outerR, ...)\<close> and
  \<open>ctx.arc(center, center, innerR, ...)\<close> and the \<open>fillStyle\<close>.
\<close>

record zone_fill =
  fill_from :: jsnum
  fill_to :: jsnum
  fill_outerR :: jsnum
  fill_innerR :: jsnum
  fill_style :: string

definition drawZones :: "config \<Rightarrow> real \<Rightarrow> real \<Rightarrow> zone_fill list" where
  "drawZones c center radius =
     (let faceRadius = Fin (radius * (88 / 100));
          startAngle = js_div (js_mul (js_sub (cfg_startAngle c) (Fin 90)) (Fin pi)) (Fin 180);
          endAngle = js_div (js_mul (js_sub (cfg_endAngle c) (Fin 90)) (Fin pi)) (Fin 180);
          totalAngle = js_sub endAngle startAngle;
          range = js_sub (cfg_max c) (cfg_min c)
      in case resolve_zones c of
           None \<Rightarrow> []
         | Some zones \<Rightarrow>
             map (\<lambda>z.
               (let zoneStartAngle =
                      js_add startAngle (js_mul (js_div (js_sub (zone_start z) (cfg_min c)) range) totalAngle);
                    zoneEndAngle =
                      js_add startAngle (js_mul (js_div (js_sub (zone_end z) (cfg_min c)) range) totalAngle);
                    outerR = (case zone_offset z of
                                Some off \<Rightarrow> js_mul faceRadius off
                              | None \<Rightarrow> js_mul faceRadius (Fin (88 / 100)));
                    zoneWidth = (case zone_width z of
                                   Some w \<Rightarrow> js_mul faceRadius w
                                 | None \<Rightarrow> js_sub outerR (js_mul faceRadius (Fin (72 / 100))));
                    innerR = js_sub outerR zoneWidth
                in \<lparr> fill_from = zoneStartAngle, fill_to = zoneEndAngle, fill_outerR = outerR,
                     fill_innerR = innerR, fill_style = zone_color z \<rparr>)) zones)"

subsection \<open>Major ticks and their numbers\<close>

text \<open>The resolved palette (\<open>_resolvedColors\<close>) and the light defaults of \<open>_buildColors\<close>.\<close>

record colors =
  col_face :: string
  col_needle :: string
  col_ticks :: string
  col_minorTicks :: string
  col_numbers :: string
  col_label :: string
  col_units :: string
  col_redline :: string

definition lightDefaults :: colors where
  "lightDefaults = \<lparr> col_face = ''#FEFEFE'', col_needle = ''#CC1010'', col_ticks = ''#1A1A1A'',
       col_minorTicks = ''#404040'', col_numbers = ''#1A1A1A'', col_label = ''#2A2A2A'',
       col_units = ''#555555'', col_redline = ''#CC2020'' \<rparr>"

text \<open>\<open>config.min + (i / (majorCount - 1)) * (config.max - config.min)\<close>\<close>

definition tick_value :: "config \<Rightarrow> nat \<Rightarrow> jsnum" where
  "tick_value c i =
     js_add (cfg_min c)
       (js_mul (js_div (Fin (real i)) (Fin (real (cfg_majorTicks c) - 1)))
          (js_sub (cfg_max c) (cfg_min c)))"

text \<open>
  \<open>(config.redlineStart && value >= config.redlineStart) ||
  (config.dangerStart && value >= config.dangerStart)\<close>, read as a condition.
\<close>

definition isDanger :: "config \<Rightarrow> jsnum \<Rightarrow> bool" where
  "isDanger c value =
     ((truthy (cfg_redlineStart c) \<and>
         (case cfg_redlineStart c of None \<Rightarrow> False | Some r \<Rightarrow> js_ge value r))
      \<or> (truthy (cfg_dangerStart c) \<and>
         (case cfg_dangerStart c of None \<Rightarrow> False | Some d \<Rightarrow> js_ge value d)))"

text \<open>
  The major-tick loop of \<open>drawTicks\<close>: the angle and the \<open>strokeStyle\<close> of each tick; and
  the last loop of \<open>drawNumbers\<close>: the \<open>fillStyle\<close> of each label.
\<close>

definition drawTicks :: "config \<Rightarrow> colors \<Rightarrow> (jsnum \<times> string) list" where
  "drawTicks c cols =
     (let startAngle = js_div (js_mul (js_sub (cfg_startAngle c) (Fin 90)) (Fin pi)) (Fin 180);
          endAngle = js_div (js_mul (js_sub (cfg_endAngle c) (Fin 90)) (Fin pi)) (Fin 180);
          totalAngle = js_sub endAngle startAngle;
          majorCount = cfg_majorTicks c
      in map (\<lambda>i.
           (let angle = js_add startAngle
                  (js_mul (js_div (Fin (real i)) (Fin (real majorCount - 1))) totalAngle);
                value = tick_value c i
            in (angle, if isDanger c value then col_redline cols else col_ticks cols)))
         [0..<majorCount])"

definition drawNumbers :: "config \<Rightarrow> colors \<Rightarrow> string list" where
  "drawNumbers c cols =
     map (\<lambda>i. if isDanger c (tick_value c i) then col_redline cols else col_numbers cols)
       [0..<cfg_majorTicks c]"

text \<open>The claim's reading of a configured threshold: the field is there, whatever its value.\<close>

definition spec_isDanger :: "config \<Rightarrow> jsnum \<Rightarrow> bool" where
  "spec_isDanger c value =
     ((case cfg_redlineStart c of None \<Rightarrow> False | Some r \<Rightarrow> js_ge value r)
      \<or> (case cfg_dangerStart c of None \<Rightarrow> False | Some d \<Rightarrow> js_ge value d))"

text \<open>\<open>{redlineStart: 0}\<close> over the defaults, and \<open>{min: -40, max: 120, redlineStart: 0}\<close>.\<close>

definition zero_redline_config :: config where
  "zero_redline_config = defaults\<lparr>cfg_redlineStart := Some (Fin 0)\<rparr>"

definition zero_redline_temp_config :: config where
  "zero_redline_temp_config =
     defaults\<lparr>cfg_min := Fin (- 40), cfg_max := Fin 120, cfg_redlineStart := Some (Fin 0)\<rparr>"

text \<open>The rpm preset's range and redline: \<open>{max: 80, redlineStart: 60}\<close>.\<close>

definition rpm_config :: config where
  "rpm_config = defaults\<lparr>cfg_max := Fin 80, cfg_redlineStart := Some (Fin 60)\<rparr>"

subsection \<open>Gradient interpolation\<close>

record stop =
  stop_at :: jsnum
  stop_color :: string

text \<open>
  What \<open>_interpolateGradient\<close> returns: one of its arguments' strings or a literal, or the
  string \<open>rgb(r,g,b)\<close> built from three numbers.
\<close>

datatype css_color = CssText string | CssRgb jsnum jsnum jsnum

definition hex_digit :: "char \<Rightarrow> nat option" where
  "hex_digit ch = map_of
     [(CHR ''0'', 0), (CHR ''1'', 1), (CHR ''2'', 2), (CHR ''3'', 3), (CHR ''4'', 4),
      (CHR ''5'', 5), (CHR ''6'', 6), (CHR ''7'', 7), (CHR ''8'', 8), (CHR ''9'', 9),
      (CHR ''a'', 10), (CHR ''b'', 11), (CHR ''c'', 12), (CHR ''d'', 13), (CHR ''e'', 14),
      (CHR ''f'', 15), (CHR ''A'', 10), (CHR ''B'', 11), (CHR ''C'', 12), (CHR ''D'', 13),
      (CHR ''E'', 14), (CHR ''F'', 15)] ch"

text \<open>
  \<open>parseInt(s, 16)\<close> on the two-character slices of a colour: the longest prefix of
  hexadecimal digits, \<open>NaN\<close> when there is none. (Leading white space, a sign and a
  \<open>0x\<close> prefix, which \<open>parseInt\<close> also accepts, are not modelled.)
\<close>

fun parseInt16_from :: "nat option \<Rightarrow> string \<Rightarrow> nat option" where
  "parseInt16_from acc [] = acc"
| "parseInt16_from acc (ch # s) =
     (case hex_digit ch of
        None \<Rightarrow> acc
      | Some d \<Rightarrow> parseInt16_from (Some ((case acc of None \<Rightarrow> 0 | Some a \<Rightarrow> a) * 16 + d)) s)"

definition parseInt16 :: "string \<Rightarrow> jsnum" where
  "parseInt16 s = (case parseInt16_from None s of None \<Rightarrow> NaN | Some n \<Rightarrow> Fin (real n))"

definition parseHex :: "string \<Rightarrow> jsnum \<times> jsnum \<times> jsnum" where
  "parseHex hex =
     (let h = remove1 (CHR ''#'') hex
      in (parseInt16 (take 2 h), parseInt16 (take 2 (drop 2 h)), parseInt16 (take 2 (drop 4 h))))"

text \<open>The search loop: the first pair of neighbours with \<open>t >= stops[i].at && t <= stops[i + 1].at\<close>.\<close>

fun find_bracket :: "jsnum \<Rightarrow> stop list \<Rightarrow> (stop \<times> stop) option" where
  "find_bracket t (a # b # rest) =
     (if js_ge t (stop_at a) \<and> js_le t (stop_at b) then Some (a, b)
      else find_bracket t (b # rest))"
| "find_bracket t rest = None"

definition interpolateGradient :: "stop list option \<Rightarrow> jsnum \<Rightarrow> css_color" where
  "interpolateGradient stops t0 =
     (case stops of
        None \<Rightarrow> CssText ''rgba(255,255,255,0.5)''
      | Some [] \<Rightarrow> CssText ''rgba(255,255,255,0.5)''
      | Some [s] \<Rightarrow> CssText (stop_color s)
      | Some (s0 # s1 # rest) \<Rightarrow>
          (let t = Math_max (Fin 0) (Math_min (Fin 1) t0);
               (lower, upper) =
                 (case find_bracket t (s0 # s1 # rest) of
                    None \<Rightarrow> (s0, last (s1 # rest))
                  | Some b \<Rightarrow> b);
               range = js_sub (stop_at upper) (stop_at lower);
               localT = (if js_gt range (Fin 0) then js_div (js_sub t (stop_at lower)) range else Fin 0);
               (r1, g1, b1) = parseHex (stop_color lower);
               (r2, g2, b2) = parseHex (stop_color upper);
               r = Math_round (js_add r1 (js_mul (js_sub r2 r1) localT));
               g = Math_round (js_add g1 (js_mul (js_sub g2 g1) localT));
               b = Math_round (js_add b1 (js_mul (js_sub b2 b1) localT))
           in CssRgb r g b))"

text \<open>Two stops that do not reach the ends of the unit interval.\<close>

definition inner_stops :: "stop list" where
  "inner_stops = [\<lparr>stop_at = Fin (1 / 4), stop_color = ''#000000''\<rparr>,
                  \<lparr>stop_at = Fin (3 / 4), stop_color = ''#c8c8c8''\<rparr>]"

section \<open>The gauge and its sweep (Gauge.js)\<close>

datatype sweep_phase = Idle | Up | Down

text \<open>The events the gauge dispatches on its element, in order.\<close>

datatype gauge_event = ValueChange jsnum | SweepComplete

text \<open>
  The fields of a \<open>Gauge\<close> that the sweep reads and writes. \<open>_config\<close> and \<open>_physics\<close> are
  set (the constructor sets both), and a renderer is present, so that \<open>_render\<close> runs.
\<close>

record Gauge =
  config_of :: config
  physics :: NeedlePhysics
  targetValue :: jsnum
  isSweeping :: bool
  sweepPhase :: sweep_phase
  sweepStartTime :: real
  dispatched :: "gauge_event list"

text \<open>
  The angle handed to \<open>setTarget\<close>: \<open>_valueToAngle\<close> always returns a finite number, which
  is read here as a real.
\<close>

definition fin_value :: "jsnum \<Rightarrow> real" where
  "fin_value x = (case x of Fin r \<Rightarrow> r | _ \<Rightarrow> 0)"

definition angle_for :: "Gauge \<Rightarrow> jsnum \<Rightarrow> real" where
  "angle_for g value = fin_value (Gauge_valueToAngle (Some (config_of g)) value)"

definition updateSweep :: "real \<Rightarrow> Gauge \<Rightarrow> Gauge" where
  "updateSweep timestamp g =
     (let elapsed = timestamp - sweepStartTime g;
          sweepDuration = 800
      in if sweepPhase g = Up
         then (if elapsed \<ge> sweepDuration
               then g\<lparr>sweepPhase := Down, sweepStartTime := timestamp,
                       physics := setTarget (angle_for g (cfg_min (config_of g))) False (physics g)\<rparr>
               else g)
         else if sweepPhase g = Down
         then (if isSettled (1 / 100) (physics g)
               then g\<lparr>isSweeping := False, sweepPhase := Idle,
                       physics := setTarget (angle_for g (targetValue g)) False (physics g),
                       dispatched := dispatched g @ [SweepComplete]\<rparr>
               else g)
         else g)"

definition setValue :: "jsnum \<Rightarrow> bool \<Rightarrow> Gauge \<Rightarrow> Gauge" where
  "setValue value immediate g =
     (let g1 = g\<lparr>targetValue := value\<rparr>
      in if \<not> isSweeping g1
         then g1\<lparr>physics := setTarget (angle_for g1 value) immediate (physics g1),
                  dispatched := dispatched g1 @ [ValueChange value]\<rparr>
         else g1)"

text \<open>\<open>sweep()\<close>; the argument is what \<open>performance.now()\<close> returns.\<close>

definition sweep :: "real \<Rightarrow> Gauge \<Rightarrow> Gauge" where
  "sweep now g =
     g\<lparr>isSweeping := True, sweepPhase := Up, sweepStartTime := now,
        physics := setTarget (angle_for g (cfg_max (config_of g))) False (physics g)\<rparr>"

text \<open>
  The part of \<open>_render\<close> that changes the gauge: the sweep, then the simulator. The drawing
  itself is left out, as is the guard against a \<open>NaN\<close> angle, which the real-valued
  simulator never produces.
\<close>

definition render :: "real \<Rightarrow> real \<Rightarrow> Gauge \<Rightarrow> Gauge" where
  "render timestamp rnd g =
     (let g1 = (if isSweeping g then updateSweep timestamp g else g)
      in g1\<lparr>physics := snd (update timestamp rnd (physics g1))\<rparr>)"

text \<open>What happens to a gauge from outside: a frame is rendered or a value is set.\<close>

datatype gauge_op = Frame real real | SetValue jsnum bool

fun gauge_step :: "gauge_op \<Rightarrow> Gauge \<Rightarrow> Gauge" where
  "gauge_step (Frame timestamp rnd) g = render timestamp rnd g"
| "gauge_step (SetValue value immediate) g = setValue value immediate g"

text \<open>
  What holds of a gauge \<open>g\<close> at any time after \<open>sweep()\<close> left it as \<open>g0\<close>: while the sweep
  runs nothing has been dispatched and the simulator aims at the maximum (going up) or
  the minimum (going down); once it is over, exactly one completion event has been added.
\<close>

definition sweep_inv :: "Gauge \<Rightarrow> Gauge \<Rightarrow> bool" where
  "sweep_inv g0 g \<longleftrightarrow>
     config_of g = config_of g0 \<and>
     (if isSweeping g
      then sweepPhase g \<noteq> Idle \<and> dispatched g = dispatched g0 \<and>
           targetAngle (physics g) =
             (if sweepPhase g = Up then angle_for g0 (cfg_max (config_of g0))
              else angle_for g0 (cfg_min (config_of g0)))
      else sweepPhase g = Idle \<and>
           count_list (dispatched g) SweepComplete = count_list (dispatched g0) SweepComplete + 1)"

text \<open>A gauge with the default configuration, showing 50, its simulator not yet updated.\<close>

definition gauge_at_50 :: Gauge where
  "gauge_at_50 =
     \<lparr> config_of = defaults,
       physics = setTarget (fin_value (Gauge_valueToAngle (Some defaults) (Fin 50))) True
                   (new_NeedlePhysics default_physics_config False),
       targetValue = Fin 50, isSweeping = False, sweepPhase = Idle, sweepStartTime = 0,
       dispatched = [] \<rparr>"

section \<open>The simulator's invariant\<close>

declare fixed_steps.simps [simp del]

lemma accumulator_loop_body:
  "accumulator (loop_body p) = accumulator p - FIXED_TIMESTEP"
  by (simp add: loop_body_def step_def Let_def)

lemma step_fields [simp]:
  "accumulator (step dt p) = accumulator p"
  "maxVelocity (step dt p) = maxVelocity p"
  "maxAccel (step dt p) = maxAccel p"
  "targetAngle (step dt p) = targetAngle p"
  "stiffness (step dt p) = stiffness p"
  "damping (step dt p) = damping p"
  "lastTime (step dt p) = lastTime p"
  "reducedMotion (step dt p) = reducedMotion p"
  "vibrationEnabled (step dt p) = vibrationEnabled p"
  "vibrationAmount (step dt p) = vibrationAmount p"
  by (simp_all add: step_def Let_def)

lemma loop_body_fields [simp]:
  "maxVelocity (loop_body p) = maxVelocity p"
  "maxAccel (loop_body p) = maxAccel p"
  "targetAngle (loop_body p) = targetAngle p"
  "stiffness (loop_body p) = stiffness p"
  "damping (loop_body p) = damping p"
  "lastTime (loop_body p) = lastTime p"
  "reducedMotion (loop_body p) = reducedMotion p"
  "vibrationEnabled (loop_body p) = vibrationEnabled p"
  "vibrationAmount (loop_body p) = vibrationAmount p"
  by (simp_all add: loop_body_def Let_def)



lemma fixed_steps_fields [simp]:
  "maxVelocity (fixed_steps p) = maxVelocity p"
  "maxAccel (fixed_steps p) = maxAccel p"
  "targetAngle (fixed_steps p) = targetAngle p"
  "stiffness (fixed_steps p) = stiffness p"
  "damping (fixed_steps p) = damping p"
  "lastTime (fixed_steps p) = lastTime p"
  "reducedMotion (fixed_steps p) = reducedMotion p"
  "vibrationEnabled (fixed_steps p) = vibrationEnabled p"
  "vibrationAmount (fixed_steps p) = vibrationAmount p"
  by (induction p rule: fixed_steps.induct, subst fixed_steps.simps, simp)+

lemma fixed_steps_accumulator:
  "0 \<le> accumulator p \<Longrightarrow>
     0 \<le> accumulator (fixed_steps p) \<and> accumulator (fixed_steps p) < FIXED_TIMESTEP"
proof (induction p rule: fixed_steps.induct)
  case (1 p)
  show ?case
  proof (cases "FIXED_TIMESTEP \<le> accumulator p")
    case True
    then have "0 \<le> accumulator (loop_body p)"
      by (simp add: accumulator_loop_body)
    with "1.IH" True show ?thesis
      by (subst (1 2) fixed_steps.simps) simp
  next
    case False
    with "1.prems" show ?thesis
      by (subst (1 2) fixed_steps.simps) simp
  qed
qed


lemma maxVelocity_do_call [simp]: "maxVelocity (do_call c p) = maxVelocity p"
  by (cases c) (auto simp: setTarget_def update_def Let_def split: option.splits)








section \<open>The loop of \<open>update\<close> as a count of fixed steps\<close>

lemma clamp_sym_range:
  assumes "0 \<le> m"
  shows "\<bar>clamp_sym m x\<bar> \<le> m" and "\<bar>x\<bar> \<le> m \<Longrightarrow> clamp_sym m x = x"
  using assms by (auto simp: clamp_sym_def)

lemma step_is_spec_step: "step FIXED_TIMESTEP p = spec_step p"
  by (simp add: step_def spec_step_def clamp_sym_def FIXED_TIMESTEP_def Let_def)

lemma step_accumulator_update:
  "step dt (p\<lparr>accumulator := a\<rparr>) = (step dt p)\<lparr>accumulator := a\<rparr>"
  by (simp add: step_def Let_def)

lemma loop_body_funpow:
  "(loop_body ^^ k) p =
     ((step FIXED_TIMESTEP ^^ k) p)\<lparr>accumulator := accumulator p - real k * FIXED_TIMESTEP\<rparr>"
proof (induction k)
  case 0
  show ?case by simp
next
  case (Suc k)
  have acc: "accumulator ((step FIXED_TIMESTEP ^^ k) p) = accumulator p" for k
    by (induction k) simp_all
  have body: "loop_body (q\<lparr>accumulator := a\<rparr>)
      = (step FIXED_TIMESTEP q)\<lparr>accumulator := a - FIXED_TIMESTEP\<rparr>" for q a
    by (simp add: loop_body_def Let_def step_accumulator_update)
  have "(loop_body ^^ Suc k) p = loop_body ((loop_body ^^ k) p)"
    by simp
  also have "\<dots> = (step FIXED_TIMESTEP ((step FIXED_TIMESTEP ^^ k) p))
      \<lparr>accumulator := accumulator p - real k * FIXED_TIMESTEP - FIXED_TIMESTEP\<rparr>"
    by (simp only: Suc body)
  finally show ?case
    by (simp add: algebra_simps)
qed

lemma steps_due_loop_body:
  "FIXED_TIMESTEP \<le> accumulator p \<Longrightarrow> steps_due p = Suc (steps_due (loop_body p))"
proof -
  assume ge: "FIXED_TIMESTEP \<le> accumulator p"
  have "accumulator (loop_body p) * 120 = accumulator p * 120 - 1"
    by (simp add: accumulator_loop_body FIXED_TIMESTEP_def algebra_simps)
  then have fl: "\<lfloor>accumulator (loop_body p) * 120\<rfloor> = \<lfloor>accumulator p * 120\<rfloor> - 1"
    by simp
  from ge have "1 \<le> accumulator p * 120"
    by (simp add: FIXED_TIMESTEP_def)
  then have "1 \<le> \<lfloor>accumulator p * 120\<rfloor>"
    by linarith
  then have "nat \<lfloor>accumulator p * 120\<rfloor> = Suc (nat (\<lfloor>accumulator p * 120\<rfloor> - 1))"
    by linarith
  with fl show ?thesis
    by (simp add: steps_due_def)
qed

lemma steps_due_none:
  "\<not> FIXED_TIMESTEP \<le> accumulator p \<Longrightarrow> steps_due p = 0"
proof -
  assume "\<not> FIXED_TIMESTEP \<le> accumulator p"
  then have "accumulator p * 120 < 1"
    by (simp add: FIXED_TIMESTEP_def)
  then have "\<lfloor>accumulator p * 120\<rfloor> \<le> 0"
    by linarith
  then show ?thesis
    by (simp add: steps_due_def)
qed

lemma fixed_steps_funpow: "fixed_steps p = (loop_body ^^ steps_due p) p"
proof (induction p rule: fixed_steps.induct)
  case (1 p)
  show ?case
  proof (cases "FIXED_TIMESTEP \<le> accumulator p")
    case True
    then have "fixed_steps p = fixed_steps (loop_body p)"
      by (subst fixed_steps.simps) simp
    also have "\<dots> = (loop_body ^^ steps_due (loop_body p)) (loop_body p)"
      using "1.IH" True by simp
    also have "\<dots> = (loop_body ^^ steps_due p) p"
      by (simp add: steps_due_loop_body [OF True] funpow_swap1)
    finally show ?thesis .
  next
    case False
    then show ?thesis
      by (subst fixed_steps.simps) (simp add: steps_due_none)
  qed
qed

lemma fixed_steps_less: "accumulator (fixed_steps p) < FIXED_TIMESTEP"
proof (induction p rule: fixed_steps.induct)
  case (1 p)
  then show ?case
    by (subst fixed_steps.simps) simp
qed

lemma snd_update: "snd (update t rnd p) = advance_state t p"
proof (cases "lastTime p")
  case None
  then show ?thesis by (simp add: update_def advance_state_def)
next
  case (Some lt)
  have ft_code:
    "(if (if (t - lt) / 1000 < 0 then 0 else (t - lt) / 1000) > MAX_FRAME_TIME
      then MAX_FRAME_TIME
      else (if (t - lt) / 1000 < 0 then 0 else (t - lt) / 1000)) = spec_elapsed lt t"
    by (simp add: spec_elapsed_def MAX_FRAME_TIME_def min_def max_def)
  have "snd (update t rnd p) =
     (if reducedMotion p
      then p\<lparr>lastTime := Some t, angle := targetAngle p, velocity := 0\<rparr>
      else fixed_steps (p\<lparr>lastTime := Some t, accumulator := accumulator p +
      (if (if (t - lt) / 1000 < 0 then 0 else (t - lt) / 1000) > MAX_FRAME_TIME
       then MAX_FRAME_TIME
       else (if (t - lt) / 1000 < 0 then 0 else (t - lt) / 1000))\<rparr>))"
    using Some by (simp add: update_def Let_def)
  then show ?thesis
    using Some by (simp only: ft_code advance_state_def option.case)
qed






lemma lastTime_advance_state [simp]: "lastTime (advance_state t p) = Some t"
  by (simp add: advance_state_def split: option.splits)

text \<open>
  With exact arithmetic the loop takes \<open>\<lfloor>buffer \<times> 120\<rfloor>\<close> turns: a later call with reduced
  motion off is \<^const>\<open>spec_advance\<close>.
\<close>

lemma update_is_spec_advance:
  assumes "lastTime p = Some lt" and "\<not> reducedMotion p"
  shows "snd (update t rnd p) = spec_advance lt t p
       \<and> accumulator (snd (update t rnd p)) < 1 / 120
       \<and> (0 \<le> accumulator p \<longrightarrow> 0 \<le> accumulator (snd (update t rnd p)))"
proof -
  define ft where "ft = spec_elapsed lt t"
  have ft0: "0 \<le> ft"
    by (simp add: ft_def spec_elapsed_def)
  define q where "q = p\<lparr>lastTime := Some t, accumulator := accumulator p + ft\<rparr>"
  have ft_code:
    "(if (if (t - lt) / 1000 < 0 then 0 else (t - lt) / 1000) > MAX_FRAME_TIME
      then MAX_FRAME_TIME
      else (if (t - lt) / 1000 < 0 then 0 else (t - lt) / 1000)) = ft"
    by (simp add: ft_def spec_elapsed_def MAX_FRAME_TIME_def min_def max_def)
  have "snd (update t rnd p) = fixed_steps (p\<lparr>lastTime := Some t, accumulator := accumulator p +
      (if (if (t - lt) / 1000 < 0 then 0 else (t - lt) / 1000) > MAX_FRAME_TIME
       then MAX_FRAME_TIME
       else (if (t - lt) / 1000 < 0 then 0 else (t - lt) / 1000))\<rparr>)"
    using assms by (simp add: update_def Let_def)
  then have upd: "snd (update t rnd p) = fixed_steps q"
    by (simp only: ft_code q_def)
  have due: "steps_due q = nat \<lfloor>(accumulator p + ft) * 120\<rfloor>"
    by (simp add: steps_due_def q_def)
  have pow: "(step FIXED_TIMESTEP ^^ k) q = ((spec_step ^^ k) p)\<lparr>lastTime := Some t, accumulator := accumulator p + ft\<rparr>" for k
  proof (induction k)
    case 0
    show ?case by (simp add: q_def)
  next
    case (Suc k)
    have comm: "spec_step (r\<lparr>lastTime := l, accumulator := a\<rparr>)
        = (spec_step r)\<lparr>lastTime := l, accumulator := a\<rparr>" for r l a
      by (simp add: spec_step_def Let_def)
    have "(step FIXED_TIMESTEP ^^ Suc k) q = spec_step ((step FIXED_TIMESTEP ^^ k) q)"
      by (simp add: step_is_spec_step)
    also have "\<dots> = (spec_step ((spec_step ^^ k) p))\<lparr>lastTime := Some t, accumulator := accumulator p + ft\<rparr>"
      by (simp only: Suc comm)
    finally show ?case
      by simp
  qed
  define n where "n = nat \<lfloor>(accumulator p + ft) * 120\<rfloor>"
  have q_acc: "accumulator q = accumulator p + ft"
    by (simp add: q_def)
  have "fixed_steps q = (loop_body ^^ n) q"
    by (simp only: fixed_steps_funpow due n_def)
  also have "\<dots> = ((step FIXED_TIMESTEP ^^ n) q)\<lparr>accumulator := accumulator q - real n * FIXED_TIMESTEP\<rparr>"
    by (rule loop_body_funpow)
  also have "\<dots> = ((spec_step ^^ n) p)\<lparr>lastTime := Some t, accumulator := accumulator p + ft\<rparr>
      \<lparr>accumulator := accumulator p + ft - real n * FIXED_TIMESTEP\<rparr>"
    by (simp only: pow q_acc)
  also have "\<dots> = spec_advance lt t p"
    unfolding spec_advance_def Let_def ft_def [symmetric] n_def [symmetric]
    by (simp add: FIXED_TIMESTEP_def)
  finally have eq: "fixed_steps q = spec_advance lt t p" .
  have lt1: "accumulator (fixed_steps q) < 1 / 120"
    using fixed_steps_less [of q] by (simp add: FIXED_TIMESTEP_def)
  have ge0: "0 \<le> accumulator p \<longrightarrow> 0 \<le> accumulator (fixed_steps q)"
    using fixed_steps_accumulator [of q] ft0 by (simp add: q_def)
  show ?thesis
    using eq lt1 ge0 by (simp add: upd)
qed

lemma started_needle_eq:
  "started_needle = (new_NeedlePhysics default_physics_config False)\<lparr>lastTime := Some 0\<rparr>"
  by (simp add: started_needle_def run_def update_def new_NeedlePhysics_def)













section \<open>Frame-rate independence\<close>




















section \<open>Idempotence at rest\<close>

lemma resting_loop_body: "resting x p \<Longrightarrow> resting x (loop_body p)"
  by (simp add: resting_def loop_body_def step_def Let_def)

lemma resting_fixed_steps: "resting x p \<Longrightarrow> resting x (fixed_steps p)"
proof (induction p rule: fixed_steps.induct)
  case (1 p)
  show ?case
  proof (cases "FIXED_TIMESTEP \<le> accumulator p")
    case True
    have eq: "fixed_steps p = fixed_steps (loop_body p)"
      using True by (subst fixed_steps.simps) simp
    show ?thesis
      using "1.IH" [OF True resting_loop_body [OF "1.prems"]] by (simp only: eq)
  next
    case False
    then have "fixed_steps p = p"
      by (subst fixed_steps.simps) simp
    with "1.prems" show ?thesis by simp
  qed
qed

lemma resting_advance_state: "resting x p \<Longrightarrow> resting x (advance_state t p)"
proof (cases "lastTime p")
  case None
  assume "resting x p"
  with None show ?thesis
    by (simp add: advance_state_def resting_def)
next
  case (Some lt)
  assume r: "resting x p"
  then have "resting x (p\<lparr>lastTime := Some t, accumulator := accumulator p + spec_elapsed lt t\<rparr>)"
    by (simp add: resting_def)
  then have "resting x (fixed_steps (p\<lparr>lastTime := Some t, accumulator := accumulator p + spec_elapsed lt t\<rparr>))"
    by (rule resting_fixed_steps)
  with r Some show ?thesis
    by (simp add: advance_state_def resting_def)
qed

lemma vibrationEnabled_advance_state [simp]:
  "vibrationEnabled (advance_state t p) = vibrationEnabled p"
  by (simp add: advance_state_def split: option.splits)

lemma fst_update_resting:
  assumes "resting x p" and "\<not> vibrationEnabled p \<or> \<bar>x\<bar> \<le> 1 / 10"
  shows "fst (update t rnd p) = x"
proof -
  have tgt: "targetAngle p = x" "angle p = x"
    using assms(1) by (simp_all add: resting_def)
  have quiet: "\<not> (vibrationEnabled p \<and> \<bar>targetAngle p\<bar> > 1 / 10)"
    using assms(2) by (auto simp: tgt)
  have "fst (update t rnd p) = angle (snd (update t rnd p))"
    using quiet by (auto simp: update_def Let_def tgt split: option.splits)
  with resting_advance_state [OF assms(1), of t] show ?thesis
    by (simp add: snd_update resting_def)
qed

lemma resting_updates:
  "resting x p \<Longrightarrow>
     resting x (snd (updates cs p)) \<and>
     (\<not> vibrationEnabled p \<or> \<bar>x\<bar> \<le> 1 / 10 \<longrightarrow> fst (updates cs p) = replicate (length cs) x)"
proof (induction cs arbitrary: p)
  case Nil
  then show ?case by simp
next
  case (Cons c cs)
  obtain t r where c: "c = (t, r)" by (cases c)
  have r1: "resting x (snd (update t r p))"
    using resting_advance_state [OF Cons.prems, of t] by (simp add: snd_update)
  have v1: "vibrationEnabled (snd (update t r p)) = vibrationEnabled p"
    by (simp add: snd_update)
  from Cons.IH [OF r1] fst_update_resting [OF Cons.prems, of t r]
  show ?case
    by (auto simp: c split_beta Let_def v1)
qed

text \<open>
  Claim C4, as amended. On a simulator with non-negative \<open>maxAccel\<close> and \<open>maxVelocity\<close>,
  after \<open>setTarget(x, true)\<close> any number of \<open>update\<close> calls, at the same or at any other
  timestamps, leave the stored angle at \<open>x\<close> and the stored velocity at 0; and every one
  of them returns \<open>x\<close> when vibration is off or \<open>\<bar>x\<bar> \<le> 0.1\<close>.
\<close>

theorem C4_idempotent_at_rest:
  assumes "0 \<le> maxAccel p" and "0 \<le> maxVelocity p"
  shows "angle (snd (updates cs (setTarget x True p))) = x
       \<and> velocity (snd (updates cs (setTarget x True p))) = 0
       \<and> (\<not> vibrationEnabled p \<or> \<bar>x\<bar> \<le> 1 / 10 \<longrightarrow>
            fst (updates cs (setTarget x True p)) = replicate (length cs) x)"
proof -
  have "resting x (setTarget x True p)"
    using assms by (simp add: resting_def setTarget_def Let_def)
  moreover have "vibrationEnabled (setTarget x True p) = vibrationEnabled p"
    by (simp add: setTarget_def Let_def)
  ultimately show ?thesis
    using resting_updates [of x "setTarget x True p" cs] by (simp add: resting_def)
qed

lemma vibrating_needle_limits:
  "0 \<le> maxAccel vibrating_needle" "0 \<le> maxVelocity vibrating_needle"
  "vibrationEnabled vibrating_needle"
  by (simp_all add: vibrating_needle_def new_NeedlePhysics_def default_physics_config_def
      or_default_def)

theorem C4_idempotent_at_rest_witness:
  "0 \<le> maxAccel vibrating_needle \<and> 0 \<le> maxVelocity vibrating_needle
   \<and> angle (snd (updates [(0, 0), (50, 0), (50, 1)] (setTarget 1 True vibrating_needle))) = 1
   \<and> velocity (snd (updates [(0, 0), (50, 0), (50, 1)] (setTarget 1 True vibrating_needle))) = 0
   \<and> \<not> vibrationEnabled started_needle
   \<and> 0 \<le> maxAccel started_needle \<and> 0 \<le> maxVelocity started_needle
   \<and> fst (updates [(50, 0), (50, 0), (50, 0)] (setTarget 1 True started_needle)) = [1, 1, 1]
   \<and> angle (snd (updates [(50, 0), (50, 0), (50, 0)] (setTarget 1 True started_needle))) = 1
   \<and> velocity (snd (updates [(50, 0), (50, 0), (50, 0)] (setTarget 1 True started_needle))) = 0"
proof -
  have h: "0 \<le> maxAccel started_needle" "0 \<le> maxVelocity started_needle"
    and q: "\<not> vibrationEnabled started_needle"
    by (simp_all add: started_needle_eq new_NeedlePhysics_def default_physics_config_def
        or_default_def)
  have r: "replicate (length [(50::real, 0::real), (50, 0), (50, 0)]) (1::real) = [1, 1, 1]"
    by (simp add: eval_nat_numeral)
  have a: "fst (updates [(50, 0), (50, 0), (50, 0)] (setTarget 1 True started_needle)) = [1, 1, 1]
   \<and> angle (snd (updates [(50, 0), (50, 0), (50, 0)] (setTarget 1 True started_needle))) = 1
   \<and> velocity (snd (updates [(50, 0), (50, 0), (50, 0)] (setTarget 1 True started_needle))) = 0"
    using C4_idempotent_at_rest [OF h, of "[(50, 0), (50, 0), (50, 0)]" 1] q
    unfolding r by blast
  have b: "angle (snd (updates [(0, 0), (50, 0), (50, 1)] (setTarget 1 True vibrating_needle))) = 1
   \<and> velocity (snd (updates [(0, 0), (50, 0), (50, 1)] (setTarget 1 True vibrating_needle))) = 0"
    using C4_idempotent_at_rest [OF vibrating_needle_limits(1,2), of "[(0, 0), (50, 0), (50, 1)]" 1]
    by blast
  show ?thesis
    using h q a b vibrating_needle_limits(1,2) by blast
qed

text \<open>
  Claim C4 as stated fails once vibration is switched on: with a target of 1 rad the second
  call at the same timestamp returns the angle with a jitter added.
\<close>

theorem C4_vibration_counterexample:
  "fst (updates [(0, 0), (0, 0)] (setTarget 1 True vibrating_needle)) \<noteq> [1, 1]"
proof -
  have fs: "fixed_steps q = q" if "accumulator q = 0" for q
    using that by (subst fixed_steps.simps) (simp add: FIXED_TIMESTEP_def)
  have "fst (updates [(0, 0), (0, 0)] (setTarget 1 True vibrating_needle))
      = [1, 1 - 1 / (1000 * pi)]"
    by (simp add: vibrating_needle_def new_NeedlePhysics_def default_physics_config_def
        or_default_def setTarget_def update_def Let_def MAX_FRAME_TIME_def fs field_simps)
  then show ?thesis
    by simp
qed

text \<open>
  The limits have to be non-negative: \<open>Math.max(-m, Math.min(m, a))\<close> is \<open>-m\<close> for a
  negative \<open>m\<close>, whatever \<open>a\<close> is. A simulator built from \<open>{maxAccel: -1}\<close> that rests on
  its target accelerates in the first step it takes.
\<close>

lemma negative_accel_needle_eq:
  "negative_accel_needle = \<lparr> angle = 0, velocity = 0, targetAngle = 0,
       stiffness = 120, damping = 18, maxVelocity = 20, maxAccel = - 1,
       accumulator = 0, lastTime = Some 0,
       vibrationEnabled = False, vibrationAmount = 2 / 1000,
       reducedMotion = False \<rparr>"
  by (simp add: negative_accel_needle_def run_def update_def new_NeedlePhysics_def or_default_def)

lemma negative_maxAccel_moves_resting_needle:
  "fst (updates [(10, 0), (10, 0)] (setTarget 1 True negative_accel_needle))
     = [1 + 1 / 14400, 1 + 1 / 14400]
   \<and> velocity (snd (updates [(10, 0), (10, 0)] (setTarget 1 True negative_accel_needle))) = 1 / 120"
proof -
  have one: "fixed_steps q = loop_body q"
    if "accumulator q = 1 / 100" for q
  proof -
    have "accumulator (loop_body q) < FIXED_TIMESTEP"
      using that by (simp add: accumulator_loop_body FIXED_TIMESTEP_def)
    then have "fixed_steps (loop_body q) = loop_body q"
      by (subst fixed_steps.simps) simp
    then show ?thesis
      using that by (subst fixed_steps.simps) (simp add: FIXED_TIMESTEP_def)
  qed
  have none: "fixed_steps q = q" if "accumulator q = 1 / 600" for q
    using that by (subst fixed_steps.simps) (simp add: FIXED_TIMESTEP_def)
  show ?thesis
    by (simp add: negative_accel_needle_eq setTarget_def update_def Let_def MAX_FRAME_TIME_def
        one none loop_body_def step_def FIXED_TIMESTEP_def)
qed

section \<open>The angle mapping\<close>

lemma js_nan_right [simp]:
  "js_add x NaN = NaN" "js_mul x NaN = NaN" "js_div x NaN = NaN" "js_le x NaN = False"
  by (cases x; simp)+

lemma Math_nan [simp]:
  "Math_max x NaN = NaN" "Math_max NaN y = NaN" "Math_min x NaN = NaN" "Math_min NaN y = NaN"
  by (simp_all add: Math_max_def Math_min_def)


lemma Gauge_valueToAngle_finite_config:
  assumes "finite_config c mn mx s e" and "mx \<noteq> mn"
  shows "Gauge_valueToAngle (Some c) (Fin v) = Fin (spec_angle mn mx s e v)"
  using assms
  by (simp add: Gauge_valueToAngle_def finite_config_def Let_def js_sub_def js_strict_eq_def
      Math_max_def Math_min_def spec_angle_def toRadians_def clamp01_def max_def min_def)

lemma valueToAngle_finite_config:
  assumes "finite_config c mn mx s e" and "mx \<noteq> mn"
  shows "valueToAngle c (Fin v) = Fin (spec_angle mn mx s e v)"
  using assms
  by (simp add: valueToAngle_def finite_config_def Let_def js_sub_def js_strict_eq_def
      Math_max_def Math_min_def spec_angle_def toRadians_def clamp01_def max_def min_def)

lemma spec_angle_ends:
  "mx \<noteq> mn \<Longrightarrow> spec_angle mn mx s e mn = toRadians (s - 90)"
  "mx \<noteq> mn \<Longrightarrow> spec_angle mn mx s e mx = toRadians (e - 90)"
  by (simp_all add: spec_angle_def clamp01_def)

text \<open>
  Claim C1, as amended. For every configuration with \<open>max\<close> equal to \<open>min\<close>,
  \<open>Gauge._valueToAngle\<close> returns 0 for every value. For every configuration whose \<open>min\<close>,
  \<open>max\<close>, \<open>startAngle\<close> and \<open>endAngle\<close> are finite with \<open>max \<noteq> min\<close>, and every finite
  value (all of magnitude at most \<open>1e300\<close>), both \<open>Gauge._valueToAngle\<close> and the renderer's
  \<open>valueToAngle\<close> return
  \<open>toRadians(startAngle - 90) + clamp01((value - min) / (max - min)) *
  (toRadians(endAngle - 90) - toRadians(startAngle - 90))\<close>, computed in this order of
  operations; the angle of \<open>min\<close> is \<open>toRadians(startAngle - 90)\<close>, and the angle of \<open>max\<close>
  is \<open>toRadians(startAngle - 90) + (toRadians(endAngle - 90) - toRadians(startAngle - 90))\<close>.
\<close>

theorem C1_angle_mapping:
  "(cfg_max c = cfg_min c \<longrightarrow> Gauge_valueToAngle (Some c) v0 = Fin 0)
   \<and> (finite_config c mn mx s e \<and> mx \<noteq> mn \<and> moderate mn \<and> moderate mx \<and> moderate s
        \<and> moderate e \<and> moderate v \<longrightarrow>
        Gauge_valueToAngle (Some c) (Fin v) = Fin (spec_angle mn mx s e v)
      \<and> valueToAngle c (Fin v) = Fin (spec_angle mn mx s e v)
      \<and> Gauge_valueToAngle (Some c) (cfg_min c) = Fin (toRadians (s - 90))
      \<and> valueToAngle c (cfg_min c) = Fin (toRadians (s - 90))
      \<and> Gauge_valueToAngle (Some c) (cfg_max c)
          = Fin (toRadians (s - 90) + (toRadians (e - 90) - toRadians (s - 90)))
      \<and> valueToAngle c (cfg_max c)
          = Fin (toRadians (s - 90) + (toRadians (e - 90) - toRadians (s - 90))))"
proof -
  have zero: "Gauge_valueToAngle (Some c) v0 = Fin 0" if eq: "cfg_max c = cfg_min c"
    using eq by (cases "cfg_min c")
      (simp_all add: Gauge_valueToAngle_def Let_def js_sub_def js_strict_eq_def)
  have rest: "Gauge_valueToAngle (Some c) (Fin v) = Fin (spec_angle mn mx s e v)
      \<and> valueToAngle c (Fin v) = Fin (spec_angle mn mx s e v)
      \<and> Gauge_valueToAngle (Some c) (cfg_min c) = Fin (toRadians (s - 90))
      \<and> valueToAngle c (cfg_min c) = Fin (toRadians (s - 90))
      \<and> Gauge_valueToAngle (Some c) (cfg_max c)
          = Fin (toRadians (s - 90) + (toRadians (e - 90) - toRadians (s - 90)))
      \<and> valueToAngle c (cfg_max c)
          = Fin (toRadians (s - 90) + (toRadians (e - 90) - toRadians (s - 90)))"
    if fc: "finite_config c mn mx s e" and ne: "mx \<noteq> mn"
  proof -
    have mn: "cfg_min c = Fin mn" and mx: "cfg_max c = Fin mx"
      using fc by (simp_all add: finite_config_def)
    have top: "spec_angle mn mx s e mx
        = toRadians (s - 90) + (toRadians (e - 90) - toRadians (s - 90))"
      using ne by (simp add: spec_angle_def clamp01_def)
    show ?thesis
      unfolding mn mx
      by (simp only: Gauge_valueToAngle_finite_config [OF fc ne]
          valueToAngle_finite_config [OF fc ne] spec_angle_ends(1) [OF ne] top simp_thms)
  qed
  show ?thesis
    using zero rest by blast
qed

lemma moderate_numeral [simp]: "moderate 0" "moderate 50" "moderate 100" "moderate 45"
  "moderate (- 225)"
proof -
  have "(225::real) \<le> 10 ^ 300"
  proof -
    have "(225::real) \<le> 10 ^ 3" by simp
    also have "\<dots> \<le> 10 ^ 300" by (rule power_increasing) simp_all
    finally show ?thesis .
  qed
  then show "moderate 0" "moderate 50" "moderate 100" "moderate 45" "moderate (- 225)"
    by (simp_all add: moderate_def)
qed

theorem C1_angle_mapping_witness:
  "cfg_max zero_range_config = cfg_min zero_range_config
   \<and> Gauge_valueToAngle (Some zero_range_config) (Fin 70) = Fin 0
   \<and> finite_config defaults 0 100 (- 225) 45 \<and> (100::real) \<noteq> 0
   \<and> moderate 0 \<and> moderate 100 \<and> moderate (- 225) \<and> moderate 45 \<and> moderate 50
   \<and> Gauge_valueToAngle (Some defaults) (Fin 50) = Fin (spec_angle 0 100 (- 225) 45 50)
   \<and> valueToAngle defaults (Fin 50) = Fin (spec_angle 0 100 (- 225) 45 50)
   \<and> Gauge_valueToAngle (Some defaults) (cfg_min defaults) = Fin (toRadians (- 225 - 90))
   \<and> valueToAngle defaults (cfg_min defaults) = Fin (toRadians (- 225 - 90))
   \<and> Gauge_valueToAngle (Some defaults) (cfg_max defaults)
       = Fin (toRadians (- 225 - 90) + (toRadians (45 - 90) - toRadians (- 225 - 90)))
   \<and> valueToAngle defaults (cfg_max defaults)
       = Fin (toRadians (- 225 - 90) + (toRadians (45 - 90) - toRadians (- 225 - 90)))"
proof -
  have z: "cfg_max zero_range_config = cfg_min zero_range_config"
    by (simp add: zero_range_config_def)
  have fc: "finite_config defaults 0 100 (- 225) 45 \<and> (100::real) \<noteq> 0
      \<and> moderate 0 \<and> moderate 100 \<and> moderate (- 225) \<and> moderate 45 \<and> moderate 50"
    by (simp add: finite_config_def defaults_def)
  show ?thesis
    using C1_angle_mapping [of zero_range_config "Fin 70"]
      C1_angle_mapping [of defaults _ 0 100 "- 225" 45 50] z fc
    by blast
qed

text \<open>
  Claim C1 as stated fails on a degenerate configuration: with \<open>min = max = 50\<close>
  \<open>Gauge._valueToAngle\<close> returns 0 at \<open>min\<close>, not \<open>toRadians(startAngle - 90)\<close>, and the
  renderer's \<open>valueToAngle\<close> returns \<open>NaN\<close> there.
\<close>

theorem C1_zero_range_counterexample:
  "Gauge_valueToAngle (Some zero_range_config) (cfg_min zero_range_config) = Fin 0
   \<and> Fin 0 \<noteq> Fin (toRadians (- 225 - 90))
   \<and> valueToAngle zero_range_config (cfg_min zero_range_config) = NaN"
  by (simp add: Gauge_valueToAngle_def valueToAngle_def zero_range_config_def defaults_def
      Let_def js_sub_def js_strict_eq_def toRadians_def Math_max_def Math_min_def)




section \<open>Zones, danger colouring and gradients\<close>

lemma resolve_zones_synthesized:
  assumes "cfg_zones c = None \<or> cfg_zones c = Some []"
    and "truthy (cfg_redlineStart c) \<or> truthy (cfg_dangerStart c)"
  shows "\<exists>start. js_or (cfg_redlineStart c) (cfg_dangerStart c) = Some start \<and>
           resolve_zones c = Some [\<lparr> zone_start = start, zone_end = cfg_max c,
             zone_color = ''rgba(204, 32, 32, 0.15)'', zone_offset = None, zone_width = None \<rparr>]"
proof -
  have t: "truthy (js_or (cfg_redlineStart c) (cfg_dangerStart c))"
    using assms(2) by (auto simp: js_or_def)
  then obtain start where s: "js_or (cfg_redlineStart c) (cfg_dangerStart c) = Some start"
    by (cases "js_or (cfg_redlineStart c) (cfg_dangerStart c)") auto
  show ?thesis
    using assms(1) t s by (auto simp: resolve_zones_def Let_def)
qed

lemma resolve_zones_explicit:
  "cfg_zones c = Some zs \<Longrightarrow> zs \<noteq> [] \<Longrightarrow> resolve_zones c = Some zs"
  by (simp add: resolve_zones_def Let_def)

lemma resolve_zones_rpm:
  "resolve_zones rpm_config = Some [\<lparr> zone_start = Fin 60, zone_end = Fin 80,
     zone_color = ''rgba(204, 32, 32, 0.15)'', zone_offset = None, zone_width = None \<rparr>]"
  by (simp add: resolve_zones_def rpm_config_def defaults_def js_or_def Let_def)

text \<open>
  Claim C6: with an empty zone list and a legacy scalar present, exactly one zone from
  that threshold to \<open>max\<close> is drawn. The code tests the scalars for truthiness, so a
  threshold of 0 counts as absent: for \<open>{zones: [], min: -40, max: 120, redlineStart: 0}\<close>
  no zone is synthesized and \<open>drawZones\<close> draws nothing, where the claim has the one zone
  from 0 to 120. (For non-zero thresholds the claim holds: \<open>resolve_zones_synthesized\<close>,
  \<open>resolve_zones_explicit\<close>.)
\<close>

theorem C6_zero_threshold_no_zone:
  "cfg_zones zero_redline_temp_config = Some []
   \<and> cfg_redlineStart zero_redline_temp_config = Some (Fin 0)
   \<and> resolve_zones zero_redline_temp_config = Some []
   \<and> drawZones zero_redline_temp_config center radius = []"
  by (simp add: drawZones_def resolve_zones_def zero_redline_temp_config_def defaults_def
      js_or_def Let_def)

lemma isDanger_truthy:
  assumes "cfg_redlineStart c = None \<or> truthy (cfg_redlineStart c)"
    and "cfg_dangerStart c = None \<or> truthy (cfg_dangerStart c)"
  shows "isDanger c v = spec_isDanger c v"
  using assms by (auto simp: isDanger_def spec_isDanger_def split: option.splits)

lemma upt_5: "[0..<5] = [0, 1, 2, 3, 4]"
  by (simp add: upt_rec)

text \<open>
  Claim C7: a major tick and its label are coloured with the redline entry exactly when the
  tick's value is at or above a configured threshold, also when that threshold is 0. The
  code's test \<open>config.redlineStart && value >= config.redlineStart\<close> is false for a
  threshold of 0: with \<open>{redlineStart: 0}\<close> over the defaults all five tick values
  (0, 25, 50, 75, 100) are at or above the threshold, and every tick and label keeps its
  normal colour. (For non-zero thresholds the claim holds: \<open>isDanger_truthy\<close>.)
\<close>

theorem C7_zero_threshold_not_red:
  "map (tick_value zero_redline_config) [0..<5] = [Fin 0, Fin 25, Fin 50, Fin 75, Fin 100]
   \<and> map (\<lambda>i. spec_isDanger zero_redline_config (tick_value zero_redline_config i)) [0..<5]
        = replicate 5 True
   \<and> map snd (drawTicks zero_redline_config lightDefaults) = replicate 5 ''#1A1A1A''
   \<and> drawNumbers zero_redline_config lightDefaults = replicate 5 ''#1A1A1A''"
proof -
  have tv: "tick_value zero_redline_config i = Fin (real i * 25)" for i
    by (simp add: tick_value_def zero_redline_config_def defaults_def js_sub_def)
  have nd: "\<not> isDanger zero_redline_config v" for v
    by (simp add: isDanger_def zero_redline_config_def defaults_def)
  have mt: "cfg_majorTicks zero_redline_config = 5"
    by (simp add: zero_redline_config_def defaults_def)
  have a: "map (tick_value zero_redline_config) [0..<5] = [Fin 0, Fin 25, Fin 50, Fin 75, Fin 100]"
    by (simp add: tv upt_5)
  have rs: "cfg_redlineStart zero_redline_config = Some (Fin 0)"
    by (simp add: zero_redline_config_def defaults_def)
  have b: "map (\<lambda>i. spec_isDanger zero_redline_config (tick_value zero_redline_config i)) [0..<5]
        = replicate 5 True"
    by (simp add: tv spec_isDanger_def rs js_ge_def upt_5 eval_nat_numeral)
  have c: "map snd (drawTicks zero_redline_config lightDefaults) = replicate 5 ''#1A1A1A''"
    by (simp add: drawTicks_def Let_def nd mt lightDefaults_def upt_5 eval_nat_numeral)
  have d: "drawNumbers zero_redline_config lightDefaults = replicate 5 ''#1A1A1A''"
    by (simp add: drawNumbers_def nd mt lightDefaults_def upt_5 eval_nat_numeral)
  from a b c d show ?thesis by simp
qed

lemma parseHex_000000: "parseHex ''#000000'' = (Fin 0, Fin 0, Fin 0)"
  by (simp add: parseHex_def parseInt16_def hex_digit_def)

lemma parseHex_c8c8c8: "parseHex ''#c8c8c8'' = (Fin 200, Fin 200, Fin 200)"
  by (simp add: parseHex_def parseInt16_def hex_digit_def)

lemma interpolateGradient_unit_pair:
  assumes "stop_at a = Fin 0" and "stop_at b = Fin 1"
    and "parseHex (stop_color a) = (Fin r1, Fin g1, Fin b1)"
    and "parseHex (stop_color b) = (Fin r2, Fin g2, Fin b2)"
  shows "interpolateGradient (Some [a, b]) (Fin t) =
     CssRgb (Fin (of_int \<lfloor>r1 + (r2 - r1) * clamp01 t + 1 / 2\<rfloor>))
            (Fin (of_int \<lfloor>g1 + (g2 - g1) * clamp01 t + 1 / 2\<rfloor>))
            (Fin (of_int \<lfloor>b1 + (b2 - b1) * clamp01 t + 1 / 2\<rfloor>))"
proof -
  have cl: "Math_max (Fin 0) (Math_min (Fin 1) (Fin t)) = Fin (clamp01 t)"
    by (simp add: Math_max_def Math_min_def clamp01_def max_def min_def)
  have rng: "0 \<le> clamp01 t" "clamp01 t \<le> 1"
    by (simp_all add: clamp01_def)
  have br: "find_bracket (Fin (clamp01 t)) [a, b] = Some (a, b)"
    using rng by (simp add: assms(1,2) js_ge_def)
  show ?thesis
    by (simp add: interpolateGradient_def Let_def cl br assms js_sub_def js_gt_def)
qed

text \<open>
  Claim C9: a query outside the range covered by the stops returns the colour of the
  nearest endpoint stop. The code clamps the query to \<open>[0, 1]\<close> only; when no pair of
  neighbours brackets it, the first and the last stop are interpolated with a position
  outside \<open>[0, 1]\<close>. With stops at 0.25 (\<open>#000000\<close>) and 0.75 (\<open>#c8c8c8\<close>) the query
  0 yields \<open>rgb(-100,-100,-100)\<close> and the query 1 yields \<open>rgb(300,300,300)\<close>, instead of
  the colours of the first and of the last stop.
\<close>

theorem C9_extrapolates_below_first_stop:
  "interpolateGradient (Some inner_stops) (Fin 0) = CssRgb (Fin (- 100)) (Fin (- 100)) (Fin (- 100))
   \<and> interpolateGradient (Some inner_stops) (Fin 1) = CssRgb (Fin 300) (Fin 300) (Fin 300)"
  by (simp add: interpolateGradient_def inner_stops_def Let_def Math_max_def Math_min_def
      js_ge_def js_gt_def js_sub_def parseHex_000000 parseHex_c8c8c8)

section \<open>The sweep\<close>

lemma targetAngle_update [simp]: "targetAngle (snd (update ts rnd p)) = targetAngle p"
  by (simp add: snd_update advance_state_def split: option.splits)

lemma targetAngle_setTarget [simp]: "targetAngle (setTarget a immediate p) = a"
  by (simp add: setTarget_def Let_def)

lemma reducedMotion_setTarget [simp]:
  "reducedMotion (setTarget a immediate p) = reducedMotion p"
  by (simp add: setTarget_def Let_def)

lemma angle_setTarget_smooth:
  "\<not> reducedMotion p \<Longrightarrow> angle (setTarget a False p) = angle p"
  by (simp add: setTarget_def Let_def)

lemma angle_for_config: "config_of g = config_of g0 \<Longrightarrow> angle_for g v = angle_for g0 v"
  by (simp add: angle_for_def)

lemma updateSweep_up_elapsed:
  "sweepPhase g = Up \<Longrightarrow> 800 \<le> ts - sweepStartTime g \<Longrightarrow>
     updateSweep ts g = g\<lparr>sweepPhase := Down, sweepStartTime := ts,
       physics := setTarget (angle_for g (cfg_min (config_of g))) False (physics g)\<rparr>"
  by (simp add: updateSweep_def Let_def)

lemma updateSweep_up_waiting:
  "sweepPhase g = Up \<Longrightarrow> ts - sweepStartTime g < 800 \<Longrightarrow> updateSweep ts g = g"
  by (simp add: updateSweep_def Let_def)

lemma updateSweep_down_moving:
  "sweepPhase g = Down \<Longrightarrow> \<not> isSettled (1 / 100) (physics g) \<Longrightarrow> updateSweep ts g = g"
  by (simp add: updateSweep_def Let_def)

lemma updateSweep_down_settled:
  "sweepPhase g = Down \<Longrightarrow> isSettled (1 / 100) (physics g) \<Longrightarrow>
     updateSweep ts g = g\<lparr>isSweeping := False, sweepPhase := Idle,
       physics := setTarget (angle_for g (targetValue g)) False (physics g),
       dispatched := dispatched g @ [SweepComplete]\<rparr>"
  by (simp add: updateSweep_def Let_def)

lemma setValue_while_sweeping:
  "isSweeping g \<Longrightarrow> setValue v immediate g = g\<lparr>targetValue := v\<rparr>"
  by (simp add: setValue_def Let_def)

lemma sweep_inv_sweep: "sweep_inv (sweep now g) (sweep now g)"
  by (simp add: sweep_inv_def sweep_def angle_for_def)

lemma sweep_inv_updateSweep:
  assumes "sweep_inv g0 g" and "isSweeping g"
  shows "sweep_inv g0 (updateSweep ts g)"
proof (cases "sweepPhase g")
  case Idle
  with assms show ?thesis
    by (simp add: sweep_inv_def)
next
  case Up
  have cfg: "config_of g = config_of g0"
    using assms(1) by (simp add: sweep_inv_def)
  show ?thesis
  proof (cases "800 \<le> ts - sweepStartTime g")
    case True
    show ?thesis
      using assms Up cfg
      by (simp add: updateSweep_up_elapsed [OF Up True] sweep_inv_def angle_for_config [OF cfg])
  next
    case False
    then have "ts - sweepStartTime g < 800" by simp
    with assms Up show ?thesis
      by (simp add: updateSweep_up_waiting)
  qed
next
  case Down
  show ?thesis
  proof (cases "isSettled (1 / 100) (physics g)")
    case True
    show ?thesis
      using assms Down
      by (simp add: updateSweep_down_settled [OF Down True] sweep_inv_def)
  next
    case False
    with assms Down show ?thesis
      by (simp add: updateSweep_down_moving)
  qed
qed

lemma sweep_inv_physics_update:
  "sweep_inv g0 g \<Longrightarrow> sweep_inv g0 (g\<lparr>physics := snd (update ts rnd (physics g))\<rparr>)"
  by (simp add: sweep_inv_def)

lemma sweep_inv_render: "sweep_inv g0 g \<Longrightarrow> sweep_inv g0 (render ts rnd g)"
  unfolding render_def Let_def
  by (rule sweep_inv_physics_update) (simp add: sweep_inv_updateSweep)

lemma sweep_inv_setValue: "sweep_inv g0 g \<Longrightarrow> sweep_inv g0 (setValue v immediate g)"
  by (cases "isSweeping g") (simp_all add: setValue_def Let_def sweep_inv_def)

lemma sweep_inv_gauge_step: "sweep_inv g0 g \<Longrightarrow> sweep_inv g0 (gauge_step op g)"
  by (cases op) (simp_all add: sweep_inv_render sweep_inv_setValue)

lemma sweep_inv_fold: "sweep_inv g0 g \<Longrightarrow> sweep_inv g0 (fold gauge_step ops g)"
  by (induction ops arbitrary: g) (simp_all add: sweep_inv_gauge_step)

text \<open>
  Claim C5. In the up-phase \<open>_updateSweep\<close> does nothing until 800 ms have passed since
  the sweep started, and then enters the down-phase and retargets the simulator to the
  angle of \<open>min\<close>; in the down-phase it does nothing until the simulator is settled within
  0.01, and then retargets it to the angle of the remembered value, returns to idle and
  dispatches \<open>gauge:sweepcomplete\<close>; while sweeping, \<open>setValue\<close> only remembers the value;
  and after \<open>sweep()\<close>, whatever frames and \<open>setValue\<close> calls follow, the simulator aims at
  the angle of \<open>max\<close> while going up and of \<open>min\<close> while going down, nothing is dispatched
  before the sweep ends, and exactly one completion event has been dispatched once it has.
\<close>

theorem C5_sweep_sequence:
  "(sweepPhase g = Up \<and> 800 \<le> ts - sweepStartTime g \<longrightarrow>
      updateSweep ts g = g\<lparr>sweepPhase := Down, sweepStartTime := ts,
        physics := setTarget (angle_for g (cfg_min (config_of g))) False (physics g)\<rparr>)
   \<and> (sweepPhase g = Up \<and> ts - sweepStartTime g < 800 \<longrightarrow> updateSweep ts g = g)
   \<and> (sweepPhase g = Down \<and> \<not> isSettled (1 / 100) (physics g) \<longrightarrow> updateSweep ts g = g)
   \<and> (sweepPhase g = Down \<and> isSettled (1 / 100) (physics g) \<longrightarrow>
      updateSweep ts g = g\<lparr>isSweeping := False, sweepPhase := Idle,
        physics := setTarget (angle_for g (targetValue g)) False (physics g),
        dispatched := dispatched g @ [SweepComplete]\<rparr>)
   \<and> (isSweeping g \<longrightarrow> setValue v immediate g = g\<lparr>targetValue := v\<rparr>)
   \<and> sweep_inv (sweep now g) (fold gauge_step ops (sweep now g))"
  using updateSweep_up_elapsed [of g ts] updateSweep_up_waiting [of g ts]
    updateSweep_down_moving [of g ts] updateSweep_down_settled [of g ts]
    setValue_while_sweeping [of g v immediate]
    sweep_inv_fold [OF sweep_inv_sweep, of now g ops]
  by blast

lemma angle_for_defaults:
  "config_of g = defaults \<Longrightarrow> angle_for g (Fin v) = spec_angle 0 100 (- 225) 45 v"
  using Gauge_valueToAngle_finite_config [of defaults 0 100 "- 225" 45 v]
  by (simp add: angle_for_def fin_value_def finite_config_def defaults_def)

theorem C5_sweep_sequence_witness:
  "sweepPhase (sweep 0 gauge_at_50) = Up
   \<and> updateSweep 800 (sweep 0 gauge_at_50)
       = (sweep 0 gauge_at_50)\<lparr>sweepPhase := Down, sweepStartTime := 800,
           physics := setTarget (angle_for (sweep 0 gauge_at_50) (Fin 0)) False
                        (physics (sweep 0 gauge_at_50))\<rparr>
   \<and> updateSweep 799 (sweep 0 gauge_at_50) = sweep 0 gauge_at_50
   \<and> sweepPhase (updateSweep 800 (sweep 0 gauge_at_50)) = Down
   \<and> \<not> isSettled (1 / 100) (physics (updateSweep 800 (sweep 0 gauge_at_50)))
   \<and> updateSweep 816 (updateSweep 800 (sweep 0 gauge_at_50)) = updateSweep 800 (sweep 0 gauge_at_50)
   \<and> isSettled (1 / 100) (physics (updateSweep 800 (sweep 0 (setValue (Fin 0) True gauge_at_50))))
   \<and> dispatched (updateSweep 816 (updateSweep 800 (sweep 0 (setValue (Fin 0) True gauge_at_50))))
       = [ValueChange (Fin 0), SweepComplete]
   \<and> isSweeping (sweep 0 gauge_at_50)
   \<and> setValue (Fin 70) False (sweep 0 gauge_at_50) = (sweep 0 gauge_at_50)\<lparr>targetValue := Fin 70\<rparr>
   \<and> sweep_inv (sweep 0 gauge_at_50)
        (fold gauge_step [SetValue (Fin 70) False, Frame 800 0] (sweep 0 gauge_at_50))"
proof -
  let ?up = "sweep 0 gauge_at_50"
  let ?down = "updateSweep 800 ?up"
  let ?low = "updateSweep 800 (sweep 0 (setValue (Fin 0) True gauge_at_50))"
  have up: "sweepPhase ?up = Up" "sweepStartTime ?up = 0" "isSweeping ?up"
    "cfg_min (config_of ?up) = Fin 0"
    by (simp_all add: sweep_def gauge_at_50_def defaults_def)
  have t1: "sweepPhase ?up = Up \<and> 800 \<le> 800 - sweepStartTime ?up"
    and t2: "sweepPhase ?up = Up \<and> 799 - sweepStartTime ?up < 800"
    by (simp_all add: up)
  have down_eq: "?down = ?up\<lparr>sweepPhase := Down, sweepStartTime := 800,
      physics := setTarget (angle_for ?up (Fin 0)) False (physics ?up)\<rparr>"
    using C5_sweep_sequence [of ?up 800] t1 by (simp only: up(4))
  have wait_eq: "updateSweep 799 ?up = ?up"
    using C5_sweep_sequence [of ?up 799] t2 by blast
  have cfg: "config_of ?up = defaults" "config_of gauge_at_50 = defaults"
    by (simp_all add: sweep_def gauge_at_50_def)
  have down_phase: "sweepPhase ?down = Down"
    by (simp add: down_eq)
  have a50: "spec_angle 0 100 (- 225) 45 50 = - pi"
    by (simp add: spec_angle_def toRadians_def clamp01_def)
  have a0: "spec_angle 0 100 (- 225) 45 0 = - (7 * pi / 4)"
    by (simp add: spec_angle_def toRadians_def clamp01_def)
  have fc: "finite_config defaults 0 100 (- 225) 45"
    by (simp add: finite_config_def defaults_def)
  have gva50: "Gauge_valueToAngle (Some defaults) (Fin 50) = Fin (- pi)"
    using Gauge_valueToAngle_finite_config [OF fc, of 50] by (simp add: a50)
  have p50: "angle (physics gauge_at_50) = - pi" "\<not> reducedMotion (physics gauge_at_50)"
    by (simp_all add: gauge_at_50_def gva50 fin_value_def setTarget_def Let_def
        new_NeedlePhysics_def)
  have pup: "angle (physics ?up) = - pi" "\<not> reducedMotion (physics ?up)"
    using p50 by (simp_all add: sweep_def angle_setTarget_smooth)
  have phys_down: "angle (physics ?down) = - pi" "targetAngle (physics ?down) = - (7 * pi / 4)"
    using pup by (simp_all add: down_eq angle_setTarget_smooth angle_for_defaults [OF cfg(1)] a0)
  have moving: "\<not> isSettled (1 / 100) (physics ?down)"
    using pi_ge_two by (simp add: isSettled_def Let_def phys_down)
  have t3: "sweepPhase ?down = Down \<and> \<not> isSettled (1 / 100) (physics ?down)"
    using down_phase moving by simp
  have stay_eq: "updateSweep 816 ?down = ?down"
    using C5_sweep_sequence [of ?down 816] t3 by blast
  have low_phys: "angle (physics ?low) = targetAngle (physics ?low)" "velocity (physics ?low) = 0"
    and low_phase: "sweepPhase ?low = Down"
    and low_disp: "dispatched ?low = [ValueChange (Fin 0)]"
    by (simp_all add: updateSweep_def sweep_def setValue_def Let_def gauge_at_50_def
        setTarget_def angle_for_def new_NeedlePhysics_def defaults_def)
  have settled: "isSettled (1 / 100) (physics ?low)"
    by (simp add: isSettled_def Let_def low_phys)
  have t4: "sweepPhase ?low = Down \<and> isSettled (1 / 100) (physics ?low)"
    using low_phase settled by simp
  have done_eq: "updateSweep 816 ?low = ?low\<lparr>isSweeping := False, sweepPhase := Idle,
        physics := setTarget (angle_for ?low (targetValue ?low)) False (physics ?low),
        dispatched := dispatched ?low @ [SweepComplete]\<rparr>"
    using C5_sweep_sequence [of ?low 816] t4 by blast
  have done_disp: "dispatched (updateSweep 816 ?low) = [ValueChange (Fin 0), SweepComplete]"
    by (simp add: done_eq low_disp)
  have set_eq: "setValue (Fin 70) False ?up = ?up\<lparr>targetValue := Fin 70\<rparr>"
    using C5_sweep_sequence [of ?up _ "Fin 70" False] up(3) by blast
  have inv: "sweep_inv ?up (fold gauge_step [SetValue (Fin 70) False, Frame 800 0] ?up)"
    using C5_sweep_sequence [of gauge_at_50 _ _ _ 0 "[SetValue (Fin 70) False, Frame 800 0]"]
    by blast
  show ?thesis
    using up(1,3) down_eq wait_eq down_phase moving stay_eq settled done_disp set_eq inv
    by simp
qed

end
